theory Spec2Isabelle
  imports Main
begin

section \<open>Rejections and promises\<close>

text \<open>
  The database manager (class \<open>DatabaseManager\<close>) is written with \<open>async\<close> functions.
  An awaited promise is modelled by its outcome: \<open>Inl\<close> of the value it rejects with, or
  \<open>Inr\<close> of the value it fulfils with. The values the code can reject with are strings
  (\<open>Promise.reject("user.exists")\<close>), instances of \<open>MongoServerError\<close> (which
  \<open>new_user\<close> inspects) and any other error object raised by a collaborator.
  The \<open>code\<close> of a \<open>MongoServerError\<close> is a number or a string, or is missing.
\<close>

datatype error_code = NumCode int | StrCode string | NoCode

datatype thrown =
    Reason string
  | MongoServerError error_code string
  | OtherError string

type_synonym 'a promise = "thrown + 'a"


section \<open>Documents\<close>

text \<open>
  Modelled from the spec: the schema modules (\<open>schemas/machine\<close>, \<open>schemas/user\<close>,
  \<open>schemas/label\<close>) are not among the sources, so the documents have the fields of the
  data model of the specification; only the fields the manager reads or writes are kept.
  Every document carries the \<open>uuid\<close> of \<open>IBaseDocument\<close>, which identifies it in its
  collection. The enumeration \<open>MachineStatus\<close> has the members \<open>Online\<close> and
  \<open>Offline\<close>, and a member that is neither for a machine that has not reported yet.

  Strings are lists of 8-bit characters; the inputs considered are ASCII, where the length
  of the list is the length JavaScript reports. Time stamps are milliseconds as integers
  (\<open>Date.now()\<close>); a field that may be \<open>undefined\<close> has an option type.
\<close>

datatype MachineStatus = Unknown | Online | Offline

record IMachine =
  uuid :: string
  hardware_uuid :: string
  owner_uuid :: string
  name :: string
  access_token :: string
  status :: MachineStatus
  last_update :: "int option"

record IUser =
  user_uuid :: string
  username :: string
  email :: string
  password :: string

record ILabel =
  label_uuid :: string
  label_owner_uuid :: string
  label_name :: string
  label_color :: string
  label_description :: "string option"
  label_icon :: "string option"

text \<open>The inputs of the operations (\<open>CreateMachineInput\<close>, \<open>UserSignupInput\<close>,
  \<open>ICreateLabelInput\<close>).\<close>

record CreateMachineInput =
  in_hardware_uuid :: string
  in_owner_uuid :: string
  in_hostname :: string

record UserSignupInput =
  in_username :: string
  in_email :: string
  in_password :: string

record ICreateLabelInput =
  in_label_owner_uuid :: string
  in_name :: string
  in_color :: "string option"
  in_icon :: "string option"
  in_description :: "string option"

type_synonym headers = "(string \<times> string) list"


section \<open>JavaScript truthiness\<close>

text \<open>A string is falsy when it is \<open>undefined\<close> or empty; a number is falsy when it is
  \<open>undefined\<close> or zero. A comparison with \<open>undefined\<close> is false.\<close>

fun truthy_str :: "string option \<Rightarrow> bool" where
  "truthy_str None = False"
| "truthy_str (Some s) = (s \<noteq> [])"

fun truthy_num :: "int option \<Rightarrow> bool" where
  "truthy_num None = False"
| "truthy_num (Some n) = (n \<noteq> 0)"

fun num_less :: "int option \<Rightarrow> int \<Rightarrow> bool" where
  "num_less None b = False"
| "num_less (Some a) b = (a < b)"


section \<open>Validators\<close>

text \<open>
  Class \<open>Validators\<close>. The character classes of the regular expressions and of
  \<open>Joi.string().alphanum()\<close>:
\<close>

definition is_digit :: "char \<Rightarrow> bool" where
  "is_digit c = (c \<in> set ''0123456789'')"

definition is_lower :: "char \<Rightarrow> bool" where
  "is_lower c = (c \<in> set ''abcdefghijklmnopqrstuvwxyz'')"

definition is_upper :: "char \<Rightarrow> bool" where
  "is_upper c = (c \<in> set ''ABCDEFGHIJKLMNOPQRSTUVWXYZ'')"

definition is_alnum :: "char \<Rightarrow> bool" where
  "is_alnum c = (is_lower c \<or> is_upper c \<or> is_digit c)"

definition is_hex :: "char \<Rightarrow> bool" where
  "is_hex c = (c \<in> set ''0123456789abcdefABCDEF'')"

text \<open>\<open>validate_hex_color\<close>: the empty string passes; otherwise
  \<open>/^#([A-Fa-f0-9]{6}|[A-Fa-f0-9]{3})$/\<close>.\<close>

fun validate_hex_color :: "string \<Rightarrow> bool" where
  "validate_hex_color [] = True"
| "validate_hex_color (c # cs) =
     (c = CHR ''#'' \<and> (length cs = 6 \<or> length cs = 3) \<and> list_all is_hex cs)"

text \<open>\<open>Joi.string()\<close> refuses the empty string; \<open>min\<close> and \<open>max\<close> bound the length.
  The trailing \<open>.not().empty()\<close> of the source adds no rule.\<close>

definition validate_password :: "string \<Rightarrow> bool" where
  "validate_password pw = (pw \<noteq> [] \<and> 4 \<le> length pw \<and> length pw \<le> 64)"

definition validate_username :: "string \<Rightarrow> bool" where
  "validate_username un =
     (un \<noteq> [] \<and> 4 \<le> length un \<and> length un \<le> 32 \<and> list_all is_alnum un)"

text \<open>\<open>validate_label_name\<close>: 3 to 16 characters of \<open>/^[a-z0-9-_]+$/\<close>.\<close>

definition validate_label_name :: "string \<Rightarrow> bool" where
  "validate_label_name label_name' =
     (label_name' \<noteq> [] \<and> 3 \<le> length label_name' \<and> length label_name' \<le> 16 \<and>
      list_all (\<lambda>c. is_lower c \<or> is_digit c \<or> c = CHR ''-'' \<or> c = CHR ''_'') label_name')"

text \<open>\<open>validate_label_icon\<close>: membership in the constant \<open>LABEL_ICONS\<close>, which the label
  schema declares; it is a parameter here.\<close>

definition validate_label_icon :: "string list \<Rightarrow> string \<Rightarrow> bool" where
  "validate_label_icon LABEL_ICONS label_icon' = (label_icon' \<in> set LABEL_ICONS)"

definition validate_label_description :: "string \<Rightarrow> bool" where
  "validate_label_description d = (d \<noteq> [] \<and> length d \<le> 300)"

text \<open>\<open>validate_uuid\<close> is \<open>Joi.string().required().uuid()\<close>: the check of the library is
  the parameter \<open>joi_uuid\<close>.\<close>

definition validate_uuid :: "(string \<Rightarrow> bool) \<Rightarrow> string \<Rightarrow> bool" where
  "validate_uuid joi_uuid u = (u \<noteq> [] \<and> joi_uuid u)"

text \<open>\<open>validate_hostname\<close>: at most 253 characters, and labels separated by dots, each
  label a letter or digit, or starting and ending with one and holding letters, digits and
  hyphens in between.\<close>

fun split_dots :: "string \<Rightarrow> string list" where
  "split_dots [] = [[]]"
| "split_dots (c # cs) =
     (if c = CHR ''.'' then [] # split_dots cs
      else (case split_dots cs of [] \<Rightarrow> [[c]] | l # ls \<Rightarrow> (c # l) # ls))"

definition hostname_label :: "string \<Rightarrow> bool" where
  "hostname_label l =
     (l \<noteq> [] \<and> is_alnum (hd l) \<and> is_alnum (last l) \<and>
      list_all (\<lambda>c. is_alnum c \<or> c = CHR ''-'') l)"

definition validate_hostname :: "string \<Rightarrow> bool" where
  "validate_hostname hostname =
     (hostname \<noteq> [] \<and> list_all hostname_label (split_dots hostname) \<and> length hostname \<le> 253)"


section \<open>Access tokens\<close>

text \<open>
  \<open>generate_access_token\<close> concatenates four results of \<open>uuidv4()\<close> and removes every
  hyphen. The four identifiers drawn are its arguments. The library renders an identifier
  as 32 hexadecimal digits in groups of 8, 4, 4, 4 and 12, separated by hyphens.
\<close>

definition generate_access_token :: "string \<Rightarrow> string \<Rightarrow> string \<Rightarrow> string \<Rightarrow> string" where
  "generate_access_token u1 u2 u3 u4 = filter (\<lambda>c. c \<noteq> CHR ''-'') (u1 @ u2 @ u3 @ u4)"

definition uuid_group :: "nat \<Rightarrow> nat \<Rightarrow> string \<Rightarrow> bool" where
  "uuid_group start len u = list_all is_hex (take len (drop start u))"

definition uuid_string :: "string \<Rightarrow> bool" where
  "uuid_string u =
     (length u = 36 \<and>
      uuid_group 0 8 u \<and> u ! 8 = CHR ''-'' \<and>
      uuid_group 9 4 u \<and> u ! 13 = CHR ''-'' \<and>
      uuid_group 14 4 u \<and> u ! 18 = CHR ''-'' \<and>
      uuid_group 19 4 u \<and> u ! 23 = CHR ''-'' \<and>
      uuid_group 24 12 u)"


section \<open>Storage\<close>

text \<open>
  Modelled from the spec: the mongoose models \<open>users\<close>, \<open>machines\<close> and \<open>labels\<close> and
  their schemas are not among the sources, so the store follows the repository contract of
  the specification: a collection is the list of its documents, \<open>findOne\<close> returns the
  first match or \<open>null\<close>, \<open>create\<close> appends a document, \<open>save\<close> and \<open>delete\<close> act on
  the stored document with the same \<open>uuid\<close>, and creating a user whose username or email is
  taken fails with the duplicate-key error of the server (code 11000). Every call may also
  fail for a reason of the storage layer: the parameter \<open>F\<close> says which calls do, and with
  what.
\<close>

record db =
  users :: "IUser list"
  machines :: "IMachine list"
  labels :: "ILabel list"

datatype db_call =
    UsersFindOne
  | UsersCreate
  | LabelsCreate
  | MachinesFind
  | MachinesFindOne
  | MachinesCreate
  | DocumentSave string
  | DocumentDelete string

type_synonym faults = "db_call \<Rightarrow> thrown option"

definition users_findOne :: "faults \<Rightarrow> (IUser \<Rightarrow> bool) \<Rightarrow> db \<Rightarrow> IUser option promise" where
  "users_findOne F q d = (case F UsersFindOne of Some e \<Rightarrow> Inl e | None \<Rightarrow> Inr (find q (users d)))"

definition users_create :: "faults \<Rightarrow> IUser \<Rightarrow> db \<Rightarrow> IUser promise \<times> db" where
  "users_create F doc d =
     (case F UsersCreate of
        Some e \<Rightarrow> (Inl e, d)
      | None \<Rightarrow>
          if list_ex (\<lambda>u. username u = username doc \<or> email u = email doc) (users d)
          then (Inl (MongoServerError (NumCode 11000) ''E11000 duplicate key error''), d)
          else (Inr doc, d\<lparr>users := users d @ [doc]\<rparr>))"

definition labels_create :: "faults \<Rightarrow> ILabel \<Rightarrow> db \<Rightarrow> ILabel promise \<times> db" where
  "labels_create F doc d =
     (case F LabelsCreate of
        Some e \<Rightarrow> (Inl e, d)
      | None \<Rightarrow> (Inr doc, d\<lparr>labels := labels d @ [doc]\<rparr>))"

definition machines_find :: "faults \<Rightarrow> db \<Rightarrow> IMachine list promise" where
  "machines_find F d = (case F MachinesFind of Some e \<Rightarrow> Inl e | None \<Rightarrow> Inr (machines d))"

definition machines_findOne ::
  "faults \<Rightarrow> (IMachine \<Rightarrow> bool) \<Rightarrow> db \<Rightarrow> IMachine option promise" where
  "machines_findOne F q d =
     (case F MachinesFindOne of Some e \<Rightarrow> Inl e | None \<Rightarrow> Inr (find q (machines d)))"

definition machines_create :: "faults \<Rightarrow> IMachine \<Rightarrow> db \<Rightarrow> IMachine promise \<times> db" where
  "machines_create F doc d =
     (case F MachinesCreate of
        Some e \<Rightarrow> (Inl e, d)
      | None \<Rightarrow> (Inr doc, d\<lparr>machines := machines d @ [doc]\<rparr>))"

definition document_save :: "faults \<Rightarrow> IMachine \<Rightarrow> db \<Rightarrow> IMachine promise \<times> db" where
  "document_save F m d =
     (case F (DocumentSave (uuid m)) of
        Some e \<Rightarrow> (Inl e, d)
      | None \<Rightarrow> (Inr m, d\<lparr>machines := map (\<lambda>x. if uuid x = uuid m then m else x) (machines d)\<rparr>))"

definition document_delete :: "faults \<Rightarrow> IMachine \<Rightarrow> db \<Rightarrow> IMachine promise \<times> db" where
  "document_delete F m d =
     (case F (DocumentDelete (uuid m)) of
        Some e \<Rightarrow> (Inl e, d)
      | None \<Rightarrow> (Inr m, d\<lparr>machines := filter (\<lambda>x. uuid x \<noteq> uuid m) (machines d)\<rparr>))"

text \<open>
  The collaborators of the manager whose code is elsewhere: the \<open>uuid\<close> rule of the
  validation library, the constant \<open>LABEL_ICONS\<close>, and the methods of a user document
  (\<open>compare_password\<close>, \<open>login\<close>) with the hashing its schema applies on creation.
\<close>

record collab =
  joi_uuid :: "string \<Rightarrow> bool"
  LABEL_ICONS :: "string list"
  hash_password :: "string \<Rightarrow> string"
  compare_password :: "IUser \<Rightarrow> string \<Rightarrow> bool promise"
  login :: "IUser \<Rightarrow> headers \<Rightarrow> string promise"


section \<open>The database manager\<close>

subsection \<open>The cleanup sweep\<close>

text \<open>
  \<open>cleanup_database\<close> returns at once when \<open>process.env.SHARD_ID\<close> is truthy and differs
  from \<open>"1"\<close>. Otherwise it reads all machines and, for each, pushes \<open>machine.delete()\<close> or
  \<open>machine.save()\<close> (after setting the status to \<open>Offline\<close>) on \<open>promises\<close>, or nothing;
  then it awaits \<open>Promise.allSettled(promises)\<close>. The sweep is taken at one instant:
  \<open>now\<close> is the value of \<open>Date.now()\<close>.
\<close>

datatype pending = Delete IMachine | Save IMachine

definition cleanup_check :: "int \<Rightarrow> IMachine \<Rightarrow> pending option" where
  "cleanup_check now machine =
     (if \<not> truthy_num (last_update machine) \<or>
         num_less (last_update machine) (now - 1000 * 60 * 60 * 24 * 30)
      then Some (Delete machine)
      else if status machine = Online \<and> num_less (last_update machine) (now - 1000 * 10)
      then Some (Save (machine\<lparr>status := Offline\<rparr>))
      else None)"

fun cleanup_loop :: "int \<Rightarrow> IMachine list \<Rightarrow> pending list" where
  "cleanup_loop now [] = []"
| "cleanup_loop now (machine # rest) =
     (case cleanup_check now machine of
        Some p \<Rightarrow> p # cleanup_loop now rest
      | None \<Rightarrow> cleanup_loop now rest)"

text \<open>Each pushed promise settles with its own outcome; \<open>allSettled\<close> collects the outcomes
  in the order of the promises and never rejects.\<close>

fun settle :: "faults \<Rightarrow> pending \<Rightarrow> db \<Rightarrow> IMachine promise \<times> db" where
  "settle F (Delete m) d = document_delete F m d"
| "settle F (Save m) d = document_save F m d"

fun allSettled :: "faults \<Rightarrow> pending list \<Rightarrow> db \<Rightarrow> IMachine promise list \<times> db" where
  "allSettled F [] d = ([], d)"
| "allSettled F (p # ps) d =
     (case settle F p d of
        (r, d') \<Rightarrow> (case allSettled F ps d' of (rs, d'') \<Rightarrow> (r # rs, d'')))"

text \<open>The result of the sweep, the outcomes of the promises it awaited (which the code
  drops), and the store it leaves.\<close>

definition cleanup_database ::
  "string option \<Rightarrow> int \<Rightarrow> faults \<Rightarrow> db \<Rightarrow> unit promise \<times> IMachine promise list \<times> db" where
  "cleanup_database SHARD_ID now F d =
     (if truthy_str SHARD_ID \<and> SHARD_ID \<noteq> Some ''1'' then (Inr (), [], d)
      else (case machines_find F d of
              Inl e \<Rightarrow> (Inl e, [], d)
            | Inr ms \<Rightarrow>
                (case allSettled F (cleanup_loop now ms) d of
                   (outcomes, d') \<Rightarrow> (Inr (), outcomes, d'))))"

subsection \<open>Labels, machines and users\<close>

text \<open>\<open>a || b\<close> on strings, and the guard \<open>a && !check(a)\<close>.\<close>

fun or_else :: "string option \<Rightarrow> string \<Rightarrow> string" where
  "or_else None b = b"
| "or_else (Some a) b = (if a = [] then b else a)"

fun given_and_not :: "string option \<Rightarrow> (string \<Rightarrow> bool) \<Rightarrow> bool" where
  "given_and_not None check = False"
| "given_and_not (Some a) check = (a \<noteq> [] \<and> \<not> check a)"

definition toLowerCase :: "string \<Rightarrow> string" where
  "toLowerCase s =
     map (\<lambda>c. case map_of (zip ''ABCDEFGHIJKLMNOPQRSTUVWXYZ'' ''abcdefghijklmnopqrstuvwxyz'') c of
                 Some l \<Rightarrow> l | None \<Rightarrow> c) s"

definition is_space :: "char \<Rightarrow> bool" where
  "is_space c = (c \<in> {CHR '' '', CHR 0x09, CHR 0x0A, CHR 0x0B, CHR 0x0C, CHR 0x0D})"

definition dash_spaces :: "string \<Rightarrow> string" where
  "dash_spaces s = map (\<lambda>c. if is_space c then CHR ''-'' else c) s"

text \<open>\<open>new_label\<close>; \<open>random\<close> is what \<open>randomHexColor()\<close> returns when called, \<open>nid\<close> the
  \<open>uuid\<close> the schema gives the new document.\<close>

definition new_label ::
  "collab \<Rightarrow> faults \<Rightarrow> string \<Rightarrow> string \<Rightarrow> ICreateLabelInput \<Rightarrow> db \<Rightarrow> ILabel promise \<times> db" where
  "new_label C F random nid input d =
     (let color = or_else (in_color input) random;
          name' = dash_spaces (toLowerCase (in_name input))
      in if \<not> validate_uuid (joi_uuid C) (in_label_owner_uuid input)
         then (Inl (Reason ''invalid.owner_uuid''), d)
         else if given_and_not (Some (in_name input)) (\<lambda>_. validate_label_name name')
         then (Inl (Reason ''invalid.label.name''), d)
         else if given_and_not (Some color) validate_hex_color
         then (Inl (Reason ''invalid.hex.color''), d)
         else if given_and_not (in_icon input) (validate_label_icon (LABEL_ICONS C))
         then (Inl (Reason ''invalid.label.icon''), d)
         else if given_and_not (in_description input) validate_label_description
         then (Inl (Reason ''invalid.label.description''), d)
         else labels_create F
                \<lparr>label_uuid = nid, label_owner_uuid = in_label_owner_uuid input,
                 label_name = name', label_color = color,
                 label_description = in_description input, label_icon = in_icon input\<rparr> d)"

text \<open>\<open>new_machine\<close>; \<open>u1\<close> to \<open>u4\<close> are the identifiers \<open>generate_access_token\<close> draws.
  A new machine has not reported: its status is not \<open>Online\<close> and it has no
  \<open>last_update\<close>.\<close>

definition new_machine ::
  "collab \<Rightarrow> faults \<Rightarrow> string \<Rightarrow> string \<Rightarrow> string \<Rightarrow> string \<Rightarrow> string \<Rightarrow> CreateMachineInput \<Rightarrow> db
     \<Rightarrow> IMachine promise \<times> db" where
  "new_machine C F u1 u2 u3 u4 nid input d =
     (if \<not> validate_uuid (joi_uuid C) (in_hardware_uuid input)
      then (Inl (Reason ''invalid.hardware_uuid''), d)
      else if \<not> validate_uuid (joi_uuid C) (in_owner_uuid input)
      then (Inl (Reason ''invalid.owner_uuid''), d)
      else if \<not> validate_hostname (in_hostname input)
      then (Inl (Reason ''invalid.hostname''), d)
      else (let access_token' = generate_access_token u1 u2 u3 u4
            in machines_create F
                 \<lparr>uuid = nid, hardware_uuid = in_hardware_uuid input,
                  owner_uuid = in_owner_uuid input, name = in_hostname input,
                  access_token = access_token', status = Unknown, last_update = None\<rparr> d))"

text \<open>\<open>new_user\<close>: the \<open>catch\<close> clause turns a \<open>MongoServerError\<close> whose code is the number
  11000 into \<open>"user.exists"\<close> and rejects with any other error as it is. The \<open>try\<close> block
  holds both the creation and the login of the new user.\<close>

definition new_user_catch :: "thrown \<Rightarrow> thrown" where
  "new_user_catch error =
     (case error of
        MongoServerError code msg \<Rightarrow> (if code = NumCode 11000 then Reason ''user.exists'' else error)
      | _ \<Rightarrow> error)"

definition new_user ::
  "collab \<Rightarrow> faults \<Rightarrow> string \<Rightarrow> UserSignupInput \<Rightarrow> headers \<Rightarrow> db
     \<Rightarrow> (IUser \<times> string) promise \<times> db" where
  "new_user C F nid form hs d =
     (case users_create F
             \<lparr>user_uuid = nid, username = in_username form, email = in_email form,
              password = hash_password C (in_password form)\<rparr> d of
        (Inl error, d') \<Rightarrow> (Inl (new_user_catch error), d')
      | (Inr user, d') \<Rightarrow>
          (case login C user hs of
             Inl error \<Rightarrow> (Inl (new_user_catch error), d')
           | Inr token \<Rightarrow> (Inr (user, token), d')))"

text \<open>\<open>find_one\<close> for the collection \<open>"user"\<close> and for \<open>"machine"\<close>: a \<open>null\<close> result
  of \<open>findOne\<close> becomes a rejection with the name of the collection and \<open>".notFound"\<close>.\<close>

definition find_user :: "faults \<Rightarrow> (IUser \<Rightarrow> bool) \<Rightarrow> db \<Rightarrow> IUser promise" where
  "find_user F q d =
     (case users_findOne F q d of
        Inl e \<Rightarrow> Inl e
      | Inr None \<Rightarrow> Inl (Reason (''user'' @ ''.notFound''))
      | Inr (Some user) \<Rightarrow> Inr user)"

definition find_machine :: "faults \<Rightarrow> (IMachine \<Rightarrow> bool) \<Rightarrow> db \<Rightarrow> IMachine promise" where
  "find_machine F q d =
     (case machines_findOne F q d of
        Inl e \<Rightarrow> Inl e
      | Inr None \<Rightarrow> Inl (Reason (''machine'' @ ''.notFound''))
      | Inr (Some machine) \<Rightarrow> Inr machine)"

text \<open>\<open>login_user\<close>. The user that \<open>find_user\<close> resolves with is a document, hence truthy,
  so the condition \<open>user && ...\<close> is the outcome of \<open>compare_password\<close>.\<close>

definition login_user ::
  "collab \<Rightarrow> faults \<Rightarrow> string \<Rightarrow> string \<Rightarrow> headers \<Rightarrow> db \<Rightarrow> (IUser \<times> string) promise" where
  "login_user C F username' password' hs d =
     (if \<not> validate_password password' then Inl (Reason ''invalid.password'')
      else if \<not> validate_username username' then Inl (Reason ''invalid.username'')
      else (case find_user F (\<lambda>u. username u = username') d of
              Inl e \<Rightarrow> Inl e
            | Inr user \<Rightarrow>
                (case compare_password C user password' of
                   Inl e \<Rightarrow> Inl e
                 | Inr True \<Rightarrow>
                     (case login C user hs of
                        Inl e \<Rightarrow> Inl e
                      | Inr token \<Rightarrow> Inr (user, token))
                 | Inr False \<Rightarrow> Inl (Reason ''invalid credentials''))))"


text \<open>\<open>delete_user\<close>. When the password matches, the function builds the query
  \<open>this.users.deleteOne({ username })\<close>, which it neither awaits nor returns, and falls off
  its end. The model returns the outcome and the queries built.\<close>

datatype query = UsersDeleteOne string

definition delete_user ::
  "collab \<Rightarrow> faults \<Rightarrow> string \<Rightarrow> string \<Rightarrow> db \<Rightarrow> unit promise \<times> query list" where
  "delete_user C F username' password' d =
     (if \<not> validate_password password' then (Inl (Reason ''invalid.password''), [])
      else if \<not> validate_username username' then (Inl (Reason ''invalid.username''), [])
      else (case find_user F (\<lambda>u. username u = username') d of
              Inl e \<Rightarrow> (Inl e, [])
            | Inr user \<Rightarrow>
                (case compare_password C user password' of
                   Inl e \<Rightarrow> (Inl e, [])
                 | Inr True \<Rightarrow> (Inr (), [UsersDeleteOne username'])
                 | Inr False \<Rightarrow> (Inr (), []))))"


section \<open>The rules of the specification\<close>

text \<open>
  The reaper's check of one machine in the words of the specification: a machine whose
  \<open>last_update\<close> is undefined or more than 30 days before \<open>now\<close> is deleted; otherwise an
  \<open>Online\<close> machine whose \<open>last_update\<close> is more than 10 seconds before \<open>now\<close> is set
  \<open>Offline\<close> and saved; otherwise nothing is written.
\<close>

definition thirty_days :: int where
  "thirty_days = 30 * 24 * 60 * 60 * 1000"

definition ten_seconds :: int where
  "ten_seconds = 10 * 1000"

definition reap_check :: "int \<Rightarrow> IMachine \<Rightarrow> pending option" where
  "reap_check now m =
     (case last_update m of
        None \<Rightarrow> Some (Delete m)
      | Some t \<Rightarrow>
          if now - t > thirty_days then Some (Delete m)
          else if status m = Online \<and> now - t > ten_seconds
          then Some (Save (m\<lparr>status := Offline\<rparr>))
          else None)"

text \<open>The duplicate-key violation the storage reports.\<close>

fun duplicate_key :: "thrown \<Rightarrow> bool" where
  "duplicate_key (MongoServerError code msg) = (code = NumCode 11000)"
| "duplicate_key _ = False"

text \<open>The outcome of one pending write taken alone, its effect on the stored machines,
  and what becomes of a machine in a sweep in which its own write, if it has one, is the
  only thing that counts.\<close>

fun own_outcome :: "faults \<Rightarrow> pending \<Rightarrow> IMachine promise" where
  "own_outcome F (Delete m) =
     (case F (DocumentDelete (uuid m)) of Some e \<Rightarrow> Inl e | None \<Rightarrow> Inr m)"
| "own_outcome F (Save m) =
     (case F (DocumentSave (uuid m)) of Some e \<Rightarrow> Inl e | None \<Rightarrow> Inr m)"

fun apply_write :: "faults \<Rightarrow> pending \<Rightarrow> IMachine list \<Rightarrow> IMachine list" where
  "apply_write F (Delete m) xs =
     (case F (DocumentDelete (uuid m)) of
        Some e \<Rightarrow> xs
      | None \<Rightarrow> filter (\<lambda>x. uuid x \<noteq> uuid m) xs)"
| "apply_write F (Save m) xs =
     (case F (DocumentSave (uuid m)) of
        Some e \<Rightarrow> xs
      | None \<Rightarrow> map (\<lambda>x. if uuid x = uuid m then m else x) xs)"

definition fate :: "int \<Rightarrow> faults \<Rightarrow> IMachine \<Rightarrow> IMachine option" where
  "fate now F m =
     (case cleanup_check now m of
        None \<Rightarrow> Some m
      | Some (Delete m') \<Rightarrow> (case F (DocumentDelete (uuid m)) of Some e \<Rightarrow> Some m | None \<Rightarrow> None)
      | Some (Save m') \<Rightarrow> (case F (DocumentSave (uuid m)) of Some e \<Rightarrow> Some m | None \<Rightarrow> Some m'))"


section \<open>Sample data\<close>

definition no_faults :: faults where
  "no_faults = (\<lambda>call. None)"

definition sample_collab :: collab where
  "sample_collab =
     \<lparr>joi_uuid = uuid_string,
      LABEL_ICONS = [''server'', ''cloud''],
      hash_password = rev,
      compare_password = (\<lambda>u p. Inr (password u = rev p)),
      login = (\<lambda>u hs. Inr (''session-'' @ username u))\<rparr>"

definition one_fault :: faults where
  "one_fault = no_faults(DocumentDelete ''m-a'' := Some (OtherError ''StorageUnavailable''))"

definition create_fault :: faults where
  "create_fault =
     no_faults(UsersCreate := Some (MongoServerError (NumCode 121) ''Document failed validation''))"

definition empty_db :: db where
  "empty_db = \<lparr>users = [], machines = [], labels = []\<rparr>"

definition alice :: IUser where
  "alice = \<lparr>user_uuid = ''u-1'', username = ''alice'', email = ''alice@example.org'',
            password = ''terces''\<rparr>"

definition alice_form :: UserSignupInput where
  "alice_form = \<lparr>in_username = ''alice'', in_email = ''alice@example.org'',
                 in_password = ''secret''\<rparr>"

definition machine_a :: IMachine where
  "machine_a =
     \<lparr>uuid = ''m-a'', hardware_uuid = ''8bb3cf50-077a-4586-8567-58f596504a0e'',
      owner_uuid = ''0a1b2c3d-0000-4000-8000-00000000000f'', name = ''alpha.example.org'',
      access_token = ''token-a'', status = Online, last_update = Some 0\<rparr>"

definition machine_b :: IMachine where
  "machine_b =
     \<lparr>uuid = ''m-b'', hardware_uuid = ''8bb3cf50-077a-4586-8567-58f596504a0e'',
      owner_uuid = ''0a1b2c3d-0000-4000-8000-00000000000f'', name = ''beta.example.org'',
      access_token = ''token-b'', status = Online, last_update = Some 1700000000000\<rparr>"

definition machine_c :: IMachine where
  "machine_c =
     \<lparr>uuid = ''m-c'', hardware_uuid = ''8bb3cf50-077a-4586-8567-58f596504a0e'',
      owner_uuid = ''0a1b2c3d-0000-4000-8000-00000000000f'', name = ''gamma.example.org'',
      access_token = ''token-c'', status = Offline, last_update = None\<rparr>"

definition fleet_db :: db where
  "fleet_db = \<lparr>users = [alice], machines = [machine_a, machine_b, machine_c], labels = []\<rparr>"

definition machine_input :: CreateMachineInput where
  "machine_input =
     \<lparr>in_hardware_uuid = ''8bb3cf50-077a-4586-8567-58f596504a0e'',
      in_owner_uuid = ''8bb3cf50-077a-4586-8567-58f596504a0e'',
      in_hostname = ''alpha.example.org''\<rparr>"

definition label_input :: ICreateLabelInput where
  "label_input =
     \<lparr>in_label_owner_uuid = ''8bb3cf50-077a-4586-8567-58f596504a0e'', in_name = [],
      in_color = Some ''#fff'', in_icon = None, in_description = None\<rparr>"


section \<open>The validators on the vectors of the test suite\<close>

text \<open>The cases of \<open>validate_hex_color()\<close> and \<open>validate_hostname()\<close> in the tests of
  the repository.\<close>

lemma validate_hex_color_vectors:
  "validate_hex_color ''#000000''" "validate_hex_color ''#fff''"
  "\<not> validate_hex_color ''#000000000''" "\<not> validate_hex_color ''#fffff''"
  "\<not> validate_hex_color ''#ff''" "\<not> validate_hex_color ''#ffffff0''"
  by (simp_all add: is_hex_def)

lemma validate_hostname_vectors:
  "validate_hostname ''cdn.discordapp.com''" "validate_hostname ''media.discordapp.net''"
  "validate_hostname ''i.imgur.com''" "validate_hostname ''783f7f2f32-j3fk.test.com''"
  "\<not> validate_hostname ''your mom''" "\<not> validate_hostname ''@%@%783f7f2f32j3fk''"
  "\<not> validate_hostname []" "\<not> validate_hostname '' ''"
  "\<not> validate_hostname ''-oaiwndoaiwnd.com''"
  by (simp_all add: validate_hostname_def hostname_label_def is_alnum_def is_lower_def
      is_upper_def is_digit_def)


section \<open>Properties of the token generator\<close>

lemma is_hex_not_hyphen: "is_hex c \<Longrightarrow> c \<noteq> CHR ''-''"
  by (auto simp: is_hex_def)

lemma filter_hex_group:
  "list_all is_hex xs \<Longrightarrow> filter (\<lambda>c. c \<noteq> CHR ''-'') xs = xs"
  by (induction xs) (auto dest: is_hex_not_hyphen)

lemma take_drop_step:
  "start + len < length u \<Longrightarrow>
   drop start u = take len (drop start u) @ u ! (start + len) # drop (Suc (start + len)) u"
proof -
  assume a: "start + len < length u"
  have "drop start u = take len (drop start u) @ drop len (drop start u)"
    by (simp only: append_take_drop_id)
  moreover have "drop len (drop start u) = drop (start + len) u"
    by (simp add: add.commute)
  moreover have "drop (start + len) u = u ! (start + len) # drop (Suc (start + len)) u"
    using a by (simp add: Cons_nth_drop_Suc)
  ultimately show ?thesis
    by simp
qed

lemma uuid_string_split:
  assumes "uuid_string u"
  shows "u = take 8 u @ CHR ''-'' # take 4 (drop 9 u) @ CHR ''-'' # take 4 (drop 14 u) @
             CHR ''-'' # take 4 (drop 19 u) @ CHR ''-'' # drop 24 u"
proof -
  from assms have len: "length u = 36"
    and h: "u ! 8 = CHR ''-''" "u ! 13 = CHR ''-''" "u ! 18 = CHR ''-''" "u ! 23 = CHR ''-''"
    by (simp_all add: uuid_string_def)
  have s0: "u = take 8 u @ u ! 8 # drop 9 u"
    using take_drop_step [of 0 8 u] len by simp
  have s1: "drop 9 u = take 4 (drop 9 u) @ u ! 13 # drop 14 u"
    using take_drop_step [of 9 4 u] len by simp
  have s2: "drop 14 u = take 4 (drop 14 u) @ u ! 18 # drop 19 u"
    using take_drop_step [of 14 4 u] len by simp
  have s3: "drop 19 u = take 4 (drop 19 u) @ u ! 23 # drop 24 u"
    using take_drop_step [of 19 4 u] len by simp
  have "u = take 8 u @ u ! 8 # take 4 (drop 9 u) @ u ! 13 # take 4 (drop 14 u) @
            u ! 18 # take 4 (drop 19 u) @ u ! 23 # drop 24 u"
    using s0 s1 s2 s3 by metis
  then show ?thesis
    using h by simp
qed

lemma uuid_string_strip:
  assumes "uuid_string u"
  shows "filter (\<lambda>c. c \<noteq> CHR ''-'') u =
           take 8 u @ take 4 (drop 9 u) @ take 4 (drop 14 u) @ take 4 (drop 19 u) @ drop 24 u"
proof -
  from assms have len: "length u = 36"
    and g: "list_all is_hex (take 8 u)" "list_all is_hex (take 4 (drop 9 u))"
      "list_all is_hex (take 4 (drop 14 u))" "list_all is_hex (take 4 (drop 19 u))"
    by (simp_all add: uuid_string_def uuid_group_def)
  from assms have "list_all is_hex (take 12 (drop 24 u))"
    unfolding uuid_string_def uuid_group_def by blast
  moreover from len have "take 12 (drop 24 u) = drop 24 u"
    by simp
  ultimately have g5: "list_all is_hex (drop 24 u)"
    by simp
  have "filter (\<lambda>c. c \<noteq> CHR ''-'') u =
          filter (\<lambda>c. c \<noteq> CHR ''-'') (take 8 u @ CHR ''-'' # take 4 (drop 9 u) @ CHR ''-'' #
            take 4 (drop 14 u) @ CHR ''-'' # take 4 (drop 19 u) @ CHR ''-'' # drop 24 u)"
    using uuid_string_split [OF assms] by simp
  also have "\<dots> = take 8 u @ take 4 (drop 9 u) @ take 4 (drop 14 u) @ take 4 (drop 19 u) @
                   drop 24 u"
    using g g5 by (simp add: filter_hex_group)
  finally show ?thesis .
qed

lemma uuid_string_strip_length:
  "uuid_string u \<Longrightarrow> length (filter (\<lambda>c. c \<noteq> CHR ''-'') u) = 32"
  by (simp add: uuid_string_strip) (simp add: uuid_string_def)

lemma uuid_string_strip_hex:
  assumes "uuid_string u"
  shows "list_all is_hex (filter (\<lambda>c. c \<noteq> CHR ''-'') u)"
proof -
  from assms have len: "length u = 36"
    and g: "list_all is_hex (take 8 u)" "list_all is_hex (take 4 (drop 9 u))"
      "list_all is_hex (take 4 (drop 14 u))" "list_all is_hex (take 4 (drop 19 u))"
    by (simp_all add: uuid_string_def uuid_group_def)
  from assms have "list_all is_hex (take 12 (drop 24 u))"
    unfolding uuid_string_def uuid_group_def by blast
  moreover from len have "take 12 (drop 24 u) = drop 24 u"
    by simp
  ultimately have "list_all is_hex (drop 24 u)"
    by simp
  with g show ?thesis
    by (simp add: uuid_string_strip [OF assms])
qed

text \<open>
  Claim C8. Every machine access token the generator produces is a string of exactly 128
  hexadecimal characters: the four identifiers drawn, each rendered as 32 hexadecimal
  digits in hyphen-separated groups, concatenated with the hyphens removed.
\<close>

theorem generate_access_token_128_hex:
  assumes "uuid_string u1" "uuid_string u2" "uuid_string u3" "uuid_string u4"
  shows "length (generate_access_token u1 u2 u3 u4) = 128 \<and>
         list_all is_hex (generate_access_token u1 u2 u3 u4) \<and>
         generate_access_token u1 u2 u3 u4 =
           filter (\<lambda>c. c \<noteq> CHR ''-'') u1 @ filter (\<lambda>c. c \<noteq> CHR ''-'') u2 @
           filter (\<lambda>c. c \<noteq> CHR ''-'') u3 @ filter (\<lambda>c. c \<noteq> CHR ''-'') u4"
proof -
  have cat: "generate_access_token u1 u2 u3 u4 =
           filter (\<lambda>c. c \<noteq> CHR ''-'') u1 @ filter (\<lambda>c. c \<noteq> CHR ''-'') u2 @
           filter (\<lambda>c. c \<noteq> CHR ''-'') u3 @ filter (\<lambda>c. c \<noteq> CHR ''-'') u4"
    by (simp add: generate_access_token_def)
  have len: "length (generate_access_token u1 u2 u3 u4) = 128"
    using assms by (simp add: cat uuid_string_strip_length)
  have hex: "list_all is_hex (generate_access_token u1 u2 u3 u4)"
    using assms by (simp add: cat uuid_string_strip_hex)
  from cat len hex show ?thesis
    by blast
qed

text \<open>The token made of four sample identifiers.\<close>

theorem generate_access_token_128_hex_witness:
  "uuid_string ''8bb3cf50-077a-4586-8567-58f596504a0e'' \<and>
   uuid_string ''0a1b2c3d-0000-4000-8000-00000000000f'' \<and>
   uuid_string ''ffffffff-ffff-4fff-bfff-ffffffffffff'' \<and>
   uuid_string ''01234567-89ab-4cde-8f01-23456789abcd'' \<and>
   length (generate_access_token ''8bb3cf50-077a-4586-8567-58f596504a0e''
     ''0a1b2c3d-0000-4000-8000-00000000000f'' ''ffffffff-ffff-4fff-bfff-ffffffffffff''
     ''01234567-89ab-4cde-8f01-23456789abcd'') = 128 \<and>
   generate_access_token ''8bb3cf50-077a-4586-8567-58f596504a0e''
     ''0a1b2c3d-0000-4000-8000-00000000000f'' ''ffffffff-ffff-4fff-bfff-ffffffffffff''
     ''01234567-89ab-4cde-8f01-23456789abcd'' =
   ''8bb3cf50077a4586856758f596504a0e0a1b2c3d00004000800000000000000fffffffffffff4fffbfffffffffffffff0123456789ab4cde8f0123456789abcd''"
proof -
  have u: "uuid_string ''8bb3cf50-077a-4586-8567-58f596504a0e''"
    "uuid_string ''0a1b2c3d-0000-4000-8000-00000000000f''"
    "uuid_string ''ffffffff-ffff-4fff-bfff-ffffffffffff''"
    "uuid_string ''01234567-89ab-4cde-8f01-23456789abcd''"
    by (simp_all add: uuid_string_def uuid_group_def is_hex_def)
  have "generate_access_token ''8bb3cf50-077a-4586-8567-58f596504a0e''
     ''0a1b2c3d-0000-4000-8000-00000000000f'' ''ffffffff-ffff-4fff-bfff-ffffffffffff''
     ''01234567-89ab-4cde-8f01-23456789abcd'' =
   ''8bb3cf50077a4586856758f596504a0e0a1b2c3d00004000800000000000000fffffffffffff4fffbfffffffffffffff0123456789ab4cde8f0123456789abcd''"
    by (simp add: generate_access_token_def)
  with u generate_access_token_128_hex [OF u] show ?thesis
    by blast
qed

section \<open>Properties of the sweep\<close>

lemma cleanup_check_cases:
  "cleanup_check now m = None \<or> cleanup_check now m = Some (Delete m) \<or>
   cleanup_check now m = Some (Save (m\<lparr>status := Offline\<rparr>))"
  by (simp add: cleanup_check_def)

lemma cleanup_loop_map_filter: "cleanup_loop now ms = List.map_filter (cleanup_check now) ms"
  by (induction ms) (simp_all add: map_filter_simps split: option.splits)

lemma settle_outcome: "fst (settle F p d) = own_outcome F p"
  by (cases p) (simp_all add: document_delete_def document_save_def split: option.splits)

lemma settle_machines: "machines (snd (settle F p d)) = apply_write F p (machines d)"
  by (cases p) (simp_all add: document_delete_def document_save_def split: option.splits)

lemma settle_others:
  "users (snd (settle F p d)) = users d \<and> labels (snd (settle F p d)) = labels d"
  by (cases p) (simp_all add: document_delete_def document_save_def split: option.splits)

lemma allSettled_outcomes: "fst (allSettled F ps d) = map (own_outcome F) ps"
proof (induction ps arbitrary: d)
  case Nil
  show ?case by simp
next
  case (Cons p ps)
  obtain r d' where s: "settle F p d = (r, d')"
    by (cases "settle F p d")
  obtain rs d'' where a: "allSettled F ps d' = (rs, d'')"
    by (cases "allSettled F ps d'")
  from s have "r = own_outcome F p"
    using settle_outcome [of F p d] by simp
  moreover from a have "rs = map (own_outcome F) ps"
    using Cons.IH [of d'] by simp
  ultimately show ?case
    using s a by simp
qed

lemma allSettled_machines:
  "machines (snd (allSettled F ps d)) = foldl (\<lambda>xs p. apply_write F p xs) (machines d) ps"
proof (induction ps arbitrary: d)
  case Nil
  show ?case by simp
next
  case (Cons p ps)
  obtain r d' where s: "settle F p d = (r, d')"
    by (cases "settle F p d")
  obtain rs d'' where a: "allSettled F ps d' = (rs, d'')"
    by (cases "allSettled F ps d'")
  from s have "machines d' = apply_write F p (machines d)"
    using settle_machines [of F p d] by simp
  moreover from a have "machines d'' = foldl (\<lambda>xs p. apply_write F p xs) (machines d') ps"
    using Cons.IH [of d'] by simp
  ultimately show ?case
    using s a by simp
qed

lemma allSettled_others:
  "users (snd (allSettled F ps d)) = users d \<and> labels (snd (allSettled F ps d)) = labels d"
proof (induction ps arbitrary: d)
  case Nil
  show ?case by simp
next
  case (Cons p ps)
  obtain r d' where s: "settle F p d = (r, d')"
    by (cases "settle F p d")
  obtain rs d'' where a: "allSettled F ps d' = (rs, d'')"
    by (cases "allSettled F ps d'")
  from s have "users d' = users d \<and> labels d' = labels d"
    using settle_others [of F p d] by simp
  moreover from a have "users d'' = users d' \<and> labels d'' = labels d'"
    using Cons.IH [of d'] by simp
  ultimately show ?case
    using s a by simp
qed

lemma delete_distinct:
  assumes "distinct (map uuid (pre @ m # rest))"
  shows "filter (\<lambda>x. uuid x \<noteq> uuid m) (pre @ m # rest) = pre @ rest"
proof -
  from assms have a: "uuid m \<notin> uuid ` set pre" "uuid m \<notin> uuid ` set rest"
    by auto
  then have "\<forall>x\<in>set pre. uuid x \<noteq> uuid m" "\<forall>x\<in>set rest. uuid x \<noteq> uuid m"
    by (metis image_eqI)+
  then have "filter (\<lambda>x. uuid x \<noteq> uuid m) pre = pre" "filter (\<lambda>x. uuid x \<noteq> uuid m) rest = rest"
    by (simp_all add: filter_id_conv)
  then show ?thesis
    by simp
qed

lemma save_distinct:
  assumes "distinct (map uuid (pre @ m # rest))" and "uuid m' = uuid m"
  shows "map (\<lambda>x. if uuid x = uuid m' then m' else x) (pre @ m # rest) = pre @ m' # rest"
proof -
  from assms have a: "uuid m' \<notin> uuid ` set pre" "uuid m' \<notin> uuid ` set rest"
    by auto
  then have "\<forall>x\<in>set pre. uuid x \<noteq> uuid m'" "\<forall>x\<in>set rest. uuid x \<noteq> uuid m'"
    by (metis image_eqI)+
  then have "map (\<lambda>x. if uuid x = uuid m' then m' else x) pre = pre"
    "map (\<lambda>x. if uuid x = uuid m' then m' else x) rest = rest"
    by (simp_all add: map_idI)
  then show ?thesis
    using assms(2) by simp
qed

lemma sweep_fates:
  "distinct (map uuid (pre @ ms)) \<Longrightarrow>
   foldl (\<lambda>xs p. apply_write F p xs) (pre @ ms) (cleanup_loop now ms) =
     pre @ List.map_filter (fate now F) ms"
proof (induction ms arbitrary: pre)
  case Nil
  show ?case by (simp add: map_filter_simps)
next
  case (Cons m rest)
  have d1: "distinct (map uuid ((pre @ [m]) @ rest))"
    using Cons.prems by simp
  have d2: "distinct (map uuid (pre @ rest))"
    using Cons.prems by simp
  have d3: "distinct (map uuid ((pre @ [m\<lparr>status := Offline\<rparr>]) @ rest))"
    using Cons.prems by simp
  consider (keep) "cleanup_check now m = None"
    | (del) "cleanup_check now m = Some (Delete m)"
    | (sav) "cleanup_check now m = Some (Save (m\<lparr>status := Offline\<rparr>))"
    using cleanup_check_cases [of now m] by auto
  then show ?case
  proof cases
    case keep
    then show ?thesis
      using Cons.IH [OF d1] by (simp add: fate_def map_filter_simps)
  next
    case del
    show ?thesis
    proof (cases "F (DocumentDelete (uuid m))")
      case None
      then show ?thesis
        using del Cons.IH [OF d2] delete_distinct [OF Cons.prems]
        by (simp add: fate_def map_filter_simps)
    next
      case (Some e)
      then show ?thesis
        using del Cons.IH [OF d1] by (simp add: fate_def map_filter_simps)
    qed
  next
    case sav
    show ?thesis
    proof (cases "F (DocumentSave (uuid m))")
      case None
      then show ?thesis
        using sav Cons.IH [OF d3] save_distinct [OF Cons.prems, of "m\<lparr>status := Offline\<rparr>"]
        by (simp add: fate_def map_filter_simps)
    next
      case (Some e)
      then show ?thesis
        using sav Cons.IH [OF d1] by (simp add: fate_def map_filter_simps)
    qed
  qed
qed

section \<open>The check of one machine\<close>

text \<open>
  Claim C2. The sweep time \<open>now\<close> is the clock of the running server, which reads more
  than 30 days after the epoch. For every machine and every such time, the check of one
  machine is the rule of the specification: the machine is deleted if its \<open>last_update\<close>
  is undefined or more than 30 days before \<open>now\<close>, whatever its status; otherwise, if
  the status is \<open>Online\<close> and \<open>last_update\<close> is more than 10 seconds before \<open>now\<close>,
  the status is set to \<open>Offline\<close> and the machine saved; otherwise no write is issued.
  One pass over a machine issues at most one write, and a machine that meets the condition
  for deletion is deleted, not demoted.
\<close>

theorem cleanup_check_reap_check:
  assumes "thirty_days < now"
  shows "cleanup_check now m = reap_check now m \<and>
         cleanup_loop now [m] = (case reap_check now m of None \<Rightarrow> [] | Some p \<Rightarrow> [p]) \<and>
         (last_update m = None \<or> (\<exists>t. last_update m = Some t \<and> now - t > thirty_days)
            \<longrightarrow> cleanup_loop now [m] = [Delete m])"
proof -
  have eq: "cleanup_check now m = reap_check now m"
  proof (cases "last_update m")
    case None
    then show ?thesis
      by (simp add: cleanup_check_def reap_check_def)
  next
    case (Some t)
    show ?thesis
    proof (cases "t = 0")
      case True
      with Some assms show ?thesis
        by (simp add: cleanup_check_def reap_check_def)
    next
      case False
      with Some show ?thesis
        by (simp add: cleanup_check_def reap_check_def thirty_days_def ten_seconds_def)
    qed
  qed
  have one: "cleanup_loop now [m] = (case reap_check now m of None \<Rightarrow> [] | Some p \<Rightarrow> [p])"
    by (simp add: eq split: option.splits)
  have prio: "last_update m = None \<or> (\<exists>t. last_update m = Some t \<and> now - t > thirty_days)
      \<longrightarrow> cleanup_loop now [m] = [Delete m]"
    using one by (auto simp: reap_check_def simp del: cleanup_loop.simps)
  from eq one prio show ?thesis
    by blast
qed

text \<open>At a sweep time in 2023, a machine silent for 15 seconds is demoted, one silent for 5
  seconds is left alone, and a machine that never reported is deleted.\<close>

theorem cleanup_check_reap_check_witness:
  "thirty_days < 1700000015000 \<and>
   cleanup_check 1700000015000 machine_b = Some (Save (machine_b\<lparr>status := Offline\<rparr>)) \<and>
   cleanup_check 1700000005000 machine_b = None \<and>
   cleanup_loop 1700000015000 [machine_c] = [Delete machine_c] \<and>
   cleanup_loop 1700000015000 [machine_a] = [Delete machine_a]"
proof -
  have t: "thirty_days < 1700000015000" "thirty_days < 1700000005000"
    by (simp_all add: thirty_days_def)
  have b: "last_update machine_b = Some 1700000000000" "status machine_b = Online"
    by (simp_all add: machine_b_def)
  have c: "last_update machine_c = None"
    by (simp add: machine_c_def)
  have a: "last_update machine_a = Some 0"
    by (simp add: machine_a_def)
  have "cleanup_check 1700000015000 machine_b = Some (Save (machine_b\<lparr>status := Offline\<rparr>))"
    using cleanup_check_reap_check [OF t(1), of machine_b] b
    by (simp add: reap_check_def thirty_days_def ten_seconds_def)
  moreover have "cleanup_check 1700000005000 machine_b = None"
    using cleanup_check_reap_check [OF t(2), of machine_b] b
    by (simp add: reap_check_def thirty_days_def ten_seconds_def)
  moreover have "cleanup_loop 1700000015000 [machine_c] = [Delete machine_c]"
    by (rule cleanup_check_reap_check [OF t(1), of machine_c,
          THEN conjunct2, THEN conjunct2, THEN mp]) (simp add: c)
  moreover have "cleanup_loop 1700000015000 [machine_a] = [Delete machine_a]"
    by (rule cleanup_check_reap_check [OF t(1), of machine_a,
          THEN conjunct2, THEN conjunct2, THEN mp]) (simp add: a t(1))
  ultimately show ?thesis
    using t(1) by blast
qed

section \<open>The shard guard\<close>

text \<open>
  Claim C5 as stated fails when the shard identifier is set to the empty string, a value
  other than \<open>"1"\<close>: the guard tests the truthiness of the identifier, so the sweep runs
  and writes.
\<close>

theorem cleanup_database_empty_shard_id:
  "cleanup_database (Some []) 1700000015000 no_faults fleet_db =
     (Inr (), [Inr machine_a, Inr (machine_b\<lparr>status := Offline\<rparr>), Inr machine_c],
      fleet_db\<lparr>machines := [machine_b\<lparr>status := Offline\<rparr>]\<rparr>)"
  by (simp add: cleanup_database_def machines_find_def no_faults_def fleet_db_def
      cleanup_check_def document_delete_def document_save_def machine_a_def machine_b_def
      machine_c_def)

text \<open>
  Claim C5, amended. For every fleet, a sweep with the shard identifier set to a non-empty
  value other than \<open>"1"\<close> performs no delete and no save and leaves the store as it was.
  A sweep with the identifier unset, empty or \<open>"1"\<close>, whose read of the machines
  succeeds, performs exactly the writes the check of each machine computes, in the order of
  the machines.
\<close>

theorem cleanup_database_shard_guard:
  "(truthy_str SHARD_ID \<and> SHARD_ID \<noteq> Some ''1''
      \<longrightarrow> cleanup_database SHARD_ID now F d = (Inr (), [], d)) \<and>
   ((SHARD_ID = None \<or> SHARD_ID = Some [] \<or> SHARD_ID = Some ''1'') \<and> F MachinesFind = None
      \<longrightarrow> cleanup_database SHARD_ID now F d =
            (case allSettled F (List.map_filter (cleanup_check now) (machines d)) d of
               (outcomes, d') \<Rightarrow> (Inr (), outcomes, d')))"
proof -
  have skip: "truthy_str SHARD_ID \<and> SHARD_ID \<noteq> Some ''1''
      \<longrightarrow> cleanup_database SHARD_ID now F d = (Inr (), [], d)"
    by (simp add: cleanup_database_def)
  have run: "(SHARD_ID = None \<or> SHARD_ID = Some [] \<or> SHARD_ID = Some ''1'') \<and>
      F MachinesFind = None
      \<longrightarrow> cleanup_database SHARD_ID now F d =
            (case allSettled F (List.map_filter (cleanup_check now) (machines d)) d of
               (outcomes, d') \<Rightarrow> (Inr (), outcomes, d'))"
    by (auto simp: cleanup_database_def machines_find_def cleanup_loop_map_filter)
  from skip run show ?thesis
    by blast
qed

text \<open>The sample fleet swept on shard 2, on shard 1 and without a shard identifier.\<close>

theorem cleanup_database_shard_guard_witness:
  "cleanup_database (Some ''2'') 1700000015000 no_faults fleet_db = (Inr (), [], fleet_db) \<and>
   cleanup_database (Some ''1'') 1700000015000 no_faults fleet_db =
     (Inr (), [Inr machine_a, Inr (machine_b\<lparr>status := Offline\<rparr>), Inr machine_c],
      fleet_db\<lparr>machines := [machine_b\<lparr>status := Offline\<rparr>]\<rparr>) \<and>
   cleanup_database None 1700000015000 no_faults fleet_db =
     (Inr (), [Inr machine_a, Inr (machine_b\<lparr>status := Offline\<rparr>), Inr machine_c],
      fleet_db\<lparr>machines := [machine_b\<lparr>status := Offline\<rparr>]\<rparr>)"
proof -
  have sweep: "allSettled no_faults
       (List.map_filter (cleanup_check 1700000015000) (machines fleet_db)) fleet_db =
     ([Inr machine_a, Inr (machine_b\<lparr>status := Offline\<rparr>), Inr machine_c],
      fleet_db\<lparr>machines := [machine_b\<lparr>status := Offline\<rparr>]\<rparr>)"
    by (simp add: no_faults_def fleet_db_def
      cleanup_check_def document_delete_def document_save_def machine_a_def machine_b_def
      machine_c_def)
  have "cleanup_database (Some ''2'') 1700000015000 no_faults fleet_db = (Inr (), [], fleet_db)"
    using cleanup_database_shard_guard [of "Some ''2''" 1700000015000 no_faults fleet_db]
    by simp
  moreover have "cleanup_database (Some ''1'') 1700000015000 no_faults fleet_db =
     (Inr (), [Inr machine_a, Inr (machine_b\<lparr>status := Offline\<rparr>), Inr machine_c],
      fleet_db\<lparr>machines := [machine_b\<lparr>status := Offline\<rparr>]\<rparr>)"
    using cleanup_database_shard_guard [of "Some ''1''" 1700000015000 no_faults fleet_db] sweep
    by (simp add: no_faults_def)
  moreover have "cleanup_database None 1700000015000 no_faults fleet_db =
     (Inr (), [Inr machine_a, Inr (machine_b\<lparr>status := Offline\<rparr>), Inr machine_c],
      fleet_db\<lparr>machines := [machine_b\<lparr>status := Offline\<rparr>]\<rparr>)"
    using cleanup_database_shard_guard [of None 1700000015000 no_faults fleet_db] sweep
    by (simp add: no_faults_def)
  ultimately show ?thesis
    by blast
qed

section \<open>Waiting for every write\<close>

text \<open>
  Claim C6. In a sweep that passes the shard guard and reads the machines, every pending
  delete and save settles with its own outcome, whether or not others fail, and the sweep
  then completes without an error. When the stored machines have distinct identifiers,
  the store the sweep leaves holds, for each machine, the result of its own write if that
  write succeeded and the machine as it was if the write failed or none was pending.
\<close>

theorem cleanup_database_settles_all:
  assumes "\<not> truthy_str SHARD_ID \<or> SHARD_ID = Some ''1''" and "F MachinesFind = None"
  shows "fst (cleanup_database SHARD_ID now F d) = Inr () \<and>
         fst (snd (cleanup_database SHARD_ID now F d)) =
           map (own_outcome F) (cleanup_loop now (machines d)) \<and>
         (distinct (map uuid (machines d)) \<longrightarrow>
            machines (snd (snd (cleanup_database SHARD_ID now F d))) =
              List.map_filter (fate now F) (machines d))"
proof -
  obtain outcomes d' where a: "allSettled F (cleanup_loop now (machines d)) d = (outcomes, d')"
    by (cases "allSettled F (cleanup_loop now (machines d)) d")
  have run: "cleanup_database SHARD_ID now F d = (Inr (), outcomes, d')"
    using assms a by (auto simp: cleanup_database_def machines_find_def)
  have out: "outcomes = map (own_outcome F) (cleanup_loop now (machines d))"
    using allSettled_outcomes [of F "cleanup_loop now (machines d)" d] a by simp
  have store: "machines d' =
      foldl (\<lambda>xs p. apply_write F p xs) (machines d) (cleanup_loop now (machines d))"
    using allSettled_machines [of F "cleanup_loop now (machines d)" d] a by simp
  have "distinct (map uuid (machines d)) \<longrightarrow>
      machines d' = List.map_filter (fate now F) (machines d)"
    using store sweep_fates [of "[]" "machines d" F now] by simp
  with run out show ?thesis
    by simp
qed

text \<open>The sample fleet swept while the delete of the first machine fails: the other two
  writes are carried out and the sweep completes.\<close>

theorem cleanup_database_settles_all_witness:
  "one_fault MachinesFind = None \<and>
   fst (cleanup_database None 1700000015000 one_fault fleet_db) = Inr () \<and>
   fst (snd (cleanup_database None 1700000015000 one_fault fleet_db)) =
     [Inl (OtherError ''StorageUnavailable''), Inr (machine_b\<lparr>status := Offline\<rparr>),
      Inr machine_c] \<and>
   machines (snd (snd (cleanup_database None 1700000015000 one_fault fleet_db))) =
     [machine_a, machine_b\<lparr>status := Offline\<rparr>]"
proof -
  have f: "one_fault MachinesFind = None"
    by (simp add: one_fault_def no_faults_def)
  have g: "\<not> truthy_str None \<or> None = Some ''1''"
    by simp
  have ms: "machines fleet_db = [machine_a, machine_b, machine_c]"
    by (simp add: fleet_db_def)
  have ids: "uuid machine_a = ''m-a''" "uuid machine_b = ''m-b''" "uuid machine_c = ''m-c''"
    by (simp_all add: machine_a_def machine_b_def machine_c_def)
  have chk: "cleanup_check 1700000015000 machine_a = Some (Delete machine_a)"
    "cleanup_check 1700000015000 machine_b = Some (Save (machine_b\<lparr>status := Offline\<rparr>))"
    "cleanup_check 1700000015000 machine_c = Some (Delete machine_c)"
    by (simp_all add: cleanup_check_def machine_a_def machine_b_def machine_c_def)
  have flt: "one_fault (DocumentDelete ''m-a'') = Some (OtherError ''StorageUnavailable'')"
    "one_fault (DocumentSave ''m-b'') = None" "one_fault (DocumentDelete ''m-c'') = None"
    by (simp_all add: one_fault_def no_faults_def)
  show ?thesis
    using cleanup_database_settles_all [where SHARD_ID = None and F = one_fault and
        now = 1700000015000 and d = fleet_db, OF g f] f
    by (simp add: ms ids chk flt fate_def map_filter_simps)
qed

section \<open>Sample data evaluated\<close>

lemma sample_validators:
  "validate_password ''secret''" "validate_password ''wrongpw''" "validate_username ''alice''"
  by (simp_all add: validate_password_def validate_username_def is_alnum_def is_lower_def)

lemma sample_users:
  "users fleet_db = [alice]" "users empty_db = []" "username alice = ''alice''"
  "password alice = ''terces''" "email alice = ''alice@example.org''"
  by (simp_all add: fleet_db_def empty_db_def alice_def)

lemma sample_collab_simps:
  "joi_uuid sample_collab = uuid_string"
  "LABEL_ICONS sample_collab = [''server'', ''cloud'']"
  "hash_password sample_collab = rev"
  "compare_password sample_collab u p = Inr (password u = rev p)"
  "login sample_collab u hs = Inr (''session-'' @ username u)"
  by (simp_all add: sample_collab_def)

section \<open>Logging a user in\<close>

text \<open>With well-formed input and a working store, \<open>login_user\<close> rejects an unknown
  username with what \<open>find_one\<close> rejects with, and a wrong password with
  \<open>"invalid credentials"\<close>.\<close>

lemma login_user_not_found:
  assumes "validate_password pw" "validate_username un" "F UsersFindOne = None"
    and "find (\<lambda>u. username u = un) (users d) = None"
  shows "login_user C F un pw hs d = Inl (Reason ''user.notFound'')"
  using assms by (simp add: login_user_def find_user_def users_findOne_def)

lemma login_user_mismatch:
  assumes "validate_password pw" "validate_username un" "F UsersFindOne = None"
    and "find (\<lambda>u. username u = un) (users d) = Some u"
    and "compare_password C u pw = Inr False"
  shows "login_user C F un pw hs d = Inl (Reason ''invalid credentials'')"
  using assms by (simp add: login_user_def find_user_def users_findOne_def)

text \<open>
  Claim C1 asks that a login with an unknown username and a login with a wrong password
  be rejected with the same message. The code rejects the first with \<open>"user.notFound"\<close>
  and the second with \<open>"invalid credentials"\<close>: here for the username \<open>alice\<close> and the
  password \<open>wrongpw\<close>, against the empty store and against a store that holds
  \<open>alice\<close>.
\<close>

theorem login_user_unknown_username:
  "login_user sample_collab no_faults ''alice'' ''wrongpw'' [] empty_db =
     Inl (Reason ''user.notFound'') \<and>
   login_user sample_collab no_faults ''alice'' ''wrongpw'' [] fleet_db =
     Inl (Reason ''invalid credentials'')"
proof -
  have "login_user sample_collab no_faults ''alice'' ''wrongpw'' [] empty_db =
     Inl (Reason ''user.notFound'')"
    by (rule login_user_not_found) (simp_all add: sample_validators sample_users no_faults_def)
  moreover have "login_user sample_collab no_faults ''alice'' ''wrongpw'' [] fleet_db =
     Inl (Reason ''invalid credentials'')"
    by (rule login_user_mismatch [where u = alice])
      (simp_all add: sample_validators sample_users sample_collab_simps no_faults_def)
  ultimately show ?thesis
    by blast
qed

section \<open>Logging a machine in\<close>




section \<open>Registering a machine\<close>

lemma sample_uuids:
  "uuid_string ''8bb3cf50-077a-4586-8567-58f596504a0e''"
  "uuid_string ''0a1b2c3d-0000-4000-8000-00000000000f''"
  by (simp_all add: uuid_string_def uuid_group_def is_hex_def)

lemma sample_hostname: "validate_hostname ''alpha.example.org''"
  by (simp add: validate_hostname_def hostname_label_def is_alnum_def is_lower_def)

lemma sample_machine_input:
  "in_hardware_uuid machine_input = ''8bb3cf50-077a-4586-8567-58f596504a0e''"
  "in_owner_uuid machine_input = ''8bb3cf50-077a-4586-8567-58f596504a0e''"
  "in_hostname machine_input = ''alpha.example.org''"
  by (simp_all add: machine_input_def)

text \<open>
  Claim C4 as stated fails: \<open>new_machine\<close> never looks the owner up. With no user in
  the store, a well-formed input is accepted and the machine is stored under an owner that
  does not exist.
\<close>

theorem new_machine_unknown_owner:
  "users empty_db = [] \<and>
   new_machine sample_collab no_faults ''8bb3cf50-077a-4586-8567-58f596504a0e''
       ''0a1b2c3d-0000-4000-8000-00000000000f'' ''8bb3cf50-077a-4586-8567-58f596504a0e''
       ''0a1b2c3d-0000-4000-8000-00000000000f'' ''m-new'' machine_input empty_db =
     (Inr \<lparr>uuid = ''m-new'', hardware_uuid = ''8bb3cf50-077a-4586-8567-58f596504a0e'',
           owner_uuid = ''8bb3cf50-077a-4586-8567-58f596504a0e'', name = ''alpha.example.org'',
           access_token = ''8bb3cf50077a4586856758f596504a0e0a1b2c3d00004000800000000000000f8bb3cf50077a4586856758f596504a0e0a1b2c3d00004000800000000000000f'',
           status = Unknown, last_update = None\<rparr>,
      empty_db\<lparr>machines :=
        [\<lparr>uuid = ''m-new'', hardware_uuid = ''8bb3cf50-077a-4586-8567-58f596504a0e'',
          owner_uuid = ''8bb3cf50-077a-4586-8567-58f596504a0e'', name = ''alpha.example.org'',
          access_token = ''8bb3cf50077a4586856758f596504a0e0a1b2c3d00004000800000000000000f8bb3cf50077a4586856758f596504a0e0a1b2c3d00004000800000000000000f'',
          status = Unknown, last_update = None\<rparr>]\<rparr>)"
  by (simp add: new_machine_def validate_uuid_def sample_collab_simps sample_uuids
      sample_hostname sample_machine_input machines_create_def no_faults_def empty_db_def
      generate_access_token_def Let_def)

text \<open>
  Claim C4, amended. \<open>new_machine\<close> rejects with \<open>"invalid.hardware_uuid"\<close>,
  \<open>"invalid.owner_uuid"\<close> or \<open>"invalid.hostname"\<close> when the hardware identifier, the
  owner identifier or the hostname is malformed, checked in this order, and then leaves the
  store as it was. It makes no check that the owner exists. Only when the three format
  checks pass does it mint an access token and create the machine, which a working store
  then holds.
\<close>

theorem new_machine_checks:
  "(\<not> validate_uuid (joi_uuid C) (in_hardware_uuid input)
      \<longrightarrow> new_machine C F ua ub uc ud nid input d = (Inl (Reason ''invalid.hardware_uuid''), d)) \<and>
   (validate_uuid (joi_uuid C) (in_hardware_uuid input) \<and>
    \<not> validate_uuid (joi_uuid C) (in_owner_uuid input)
      \<longrightarrow> new_machine C F ua ub uc ud nid input d = (Inl (Reason ''invalid.owner_uuid''), d)) \<and>
   (validate_uuid (joi_uuid C) (in_hardware_uuid input) \<and>
    validate_uuid (joi_uuid C) (in_owner_uuid input) \<and> \<not> validate_hostname (in_hostname input)
      \<longrightarrow> new_machine C F ua ub uc ud nid input d = (Inl (Reason ''invalid.hostname''), d)) \<and>
   (validate_uuid (joi_uuid C) (in_hardware_uuid input) \<and>
    validate_uuid (joi_uuid C) (in_owner_uuid input) \<and> validate_hostname (in_hostname input) \<and>
    F MachinesCreate = None
      \<longrightarrow> new_machine C F ua ub uc ud nid input d =
            (Inr \<lparr>uuid = nid, hardware_uuid = in_hardware_uuid input,
                  owner_uuid = in_owner_uuid input, name = in_hostname input,
                  access_token = generate_access_token ua ub uc ud, status = Unknown,
                  last_update = None\<rparr>,
             d\<lparr>machines := machines d @
                [\<lparr>uuid = nid, hardware_uuid = in_hardware_uuid input,
                  owner_uuid = in_owner_uuid input, name = in_hostname input,
                  access_token = generate_access_token ua ub uc ud, status = Unknown,
                  last_update = None\<rparr>]\<rparr>))"
  by (simp add: new_machine_def machines_create_def Let_def)

text \<open>A hostname that starts with a hyphen, an owner identifier that is no identifier, and
  a well-formed input.\<close>

theorem new_machine_checks_witness:
  "new_machine sample_collab no_faults ''8bb3cf50-077a-4586-8567-58f596504a0e''
       ''0a1b2c3d-0000-4000-8000-00000000000f'' ''8bb3cf50-077a-4586-8567-58f596504a0e''
       ''0a1b2c3d-0000-4000-8000-00000000000f'' ''m-d''
       (machine_input\<lparr>in_hostname := ''-alpha''\<rparr>) fleet_db =
     (Inl (Reason ''invalid.hostname''), fleet_db) \<and>
   new_machine sample_collab no_faults ''8bb3cf50-077a-4586-8567-58f596504a0e''
       ''0a1b2c3d-0000-4000-8000-00000000000f'' ''8bb3cf50-077a-4586-8567-58f596504a0e''
       ''0a1b2c3d-0000-4000-8000-00000000000f'' ''m-d''
       (machine_input\<lparr>in_owner_uuid := ''124124''\<rparr>) fleet_db =
     (Inl (Reason ''invalid.owner_uuid''), fleet_db) \<and>
   fst (new_machine sample_collab no_faults ''8bb3cf50-077a-4586-8567-58f596504a0e''
       ''0a1b2c3d-0000-4000-8000-00000000000f'' ''8bb3cf50-077a-4586-8567-58f596504a0e''
       ''0a1b2c3d-0000-4000-8000-00000000000f'' ''m-d'' machine_input fleet_db) =
     Inr \<lparr>uuid = ''m-d'', hardware_uuid = ''8bb3cf50-077a-4586-8567-58f596504a0e'',
          owner_uuid = ''8bb3cf50-077a-4586-8567-58f596504a0e'', name = ''alpha.example.org'',
          access_token = ''8bb3cf50077a4586856758f596504a0e0a1b2c3d00004000800000000000000f8bb3cf50077a4586856758f596504a0e0a1b2c3d00004000800000000000000f'',
          status = Unknown, last_update = None\<rparr>"
proof -
  have v: "validate_uuid (joi_uuid sample_collab) ''8bb3cf50-077a-4586-8567-58f596504a0e''"
    "validate_uuid (joi_uuid sample_collab) ''0a1b2c3d-0000-4000-8000-00000000000f''"
    "\<not> validate_uuid (joi_uuid sample_collab) ''124124''"
    by (simp_all add: validate_uuid_def sample_collab_simps sample_uuids)
      (simp add: uuid_string_def)
  have h: "\<not> validate_hostname ''-alpha''"
    by (simp add: validate_hostname_def hostname_label_def is_alnum_def is_lower_def
        is_upper_def is_digit_def)
  have t: "generate_access_token ''8bb3cf50-077a-4586-8567-58f596504a0e''
       ''0a1b2c3d-0000-4000-8000-00000000000f'' ''8bb3cf50-077a-4586-8567-58f596504a0e''
       ''0a1b2c3d-0000-4000-8000-00000000000f'' =
     ''8bb3cf50077a4586856758f596504a0e0a1b2c3d00004000800000000000000f8bb3cf50077a4586856758f596504a0e0a1b2c3d00004000800000000000000f''"
    by (simp add: generate_access_token_def)
  have f: "no_faults MachinesCreate = None"
    by (simp add: no_faults_def)
  note inst = new_machine_checks [where C = sample_collab and F = no_faults and
      ua = "''8bb3cf50-077a-4586-8567-58f596504a0e''" and
      ub = "''0a1b2c3d-0000-4000-8000-00000000000f''" and
      uc = "''8bb3cf50-077a-4586-8567-58f596504a0e''" and
      ud = "''0a1b2c3d-0000-4000-8000-00000000000f''" and nid = "''m-d''" and d = fleet_db]
  have "new_machine sample_collab no_faults ''8bb3cf50-077a-4586-8567-58f596504a0e''
       ''0a1b2c3d-0000-4000-8000-00000000000f'' ''8bb3cf50-077a-4586-8567-58f596504a0e''
       ''0a1b2c3d-0000-4000-8000-00000000000f'' ''m-d''
       (machine_input\<lparr>in_hostname := ''-alpha''\<rparr>) fleet_db =
     (Inl (Reason ''invalid.hostname''), fleet_db)"
    using inst [where input = "machine_input\<lparr>in_hostname := ''-alpha''\<rparr>"] v h
    by (simp add: sample_machine_input)
  moreover have "new_machine sample_collab no_faults ''8bb3cf50-077a-4586-8567-58f596504a0e''
       ''0a1b2c3d-0000-4000-8000-00000000000f'' ''8bb3cf50-077a-4586-8567-58f596504a0e''
       ''0a1b2c3d-0000-4000-8000-00000000000f'' ''m-d''
       (machine_input\<lparr>in_owner_uuid := ''124124''\<rparr>) fleet_db =
     (Inl (Reason ''invalid.owner_uuid''), fleet_db)"
    using inst [where input = "machine_input\<lparr>in_owner_uuid := ''124124''\<rparr>"] v
    by (simp add: sample_machine_input)
  moreover have "fst (new_machine sample_collab no_faults ''8bb3cf50-077a-4586-8567-58f596504a0e''
       ''0a1b2c3d-0000-4000-8000-00000000000f'' ''8bb3cf50-077a-4586-8567-58f596504a0e''
       ''0a1b2c3d-0000-4000-8000-00000000000f'' ''m-d'' machine_input fleet_db) =
     Inr \<lparr>uuid = ''m-d'', hardware_uuid = ''8bb3cf50-077a-4586-8567-58f596504a0e'',
          owner_uuid = ''8bb3cf50-077a-4586-8567-58f596504a0e'', name = ''alpha.example.org'',
          access_token = ''8bb3cf50077a4586856758f596504a0e0a1b2c3d00004000800000000000000f8bb3cf50077a4586856758f596504a0e0a1b2c3d00004000800000000000000f'',
          status = Unknown, last_update = None\<rparr>"
    using inst [where input = machine_input] v f sample_hostname
    by (simp add: sample_machine_input t)
  ultimately show ?thesis
    by blast
qed

section \<open>Signing a user up\<close>

lemma new_user_catch_simps:
  "duplicate_key e \<Longrightarrow> new_user_catch e = Reason ''user.exists''"
  "\<not> duplicate_key e \<Longrightarrow> new_user_catch e = e"
  by (cases e; simp add: new_user_catch_def)+

text \<open>
  Claim C7. When the creation of the user fails with the duplicate-key error of the
  storage (a \<open>MongoServerError\<close> with code 11000), \<open>new_user\<close> rejects with
  \<open>"user.exists"\<close>; when it fails with any other error, \<open>new_user\<close> rejects with that
  error, unchanged.
\<close>

theorem new_user_duplicate_key:
  "(users_create F \<lparr>user_uuid = nid, username = in_username form, email = in_email form,
                     password = hash_password C (in_password form)\<rparr> d = (Inl e, d') \<and>
    duplicate_key e
      \<longrightarrow> new_user C F nid form hs d = (Inl (Reason ''user.exists''), d')) \<and>
   (users_create F \<lparr>user_uuid = nid, username = in_username form, email = in_email form,
                     password = hash_password C (in_password form)\<rparr> d = (Inl e, d') \<and>
    \<not> duplicate_key e
      \<longrightarrow> new_user C F nid form hs d = (Inl e, d'))"
  by (simp add: new_user_def new_user_catch_simps)

text \<open>A second signup under a username that is taken, and a signup that the server refuses
  for another reason.\<close>

theorem new_user_duplicate_key_witness:
  "new_user sample_collab no_faults ''u-2'' alice_form [] fleet_db =
     (Inl (Reason ''user.exists''), fleet_db) \<and>
   new_user sample_collab create_fault ''u-2'' alice_form [] empty_db =
     (Inl (MongoServerError (NumCode 121) ''Document failed validation''), empty_db)"
proof -
  have dup: "users_create no_faults
       \<lparr>user_uuid = ''u-2'', username = in_username alice_form, email = in_email alice_form,
        password = hash_password sample_collab (in_password alice_form)\<rparr> fleet_db =
     (Inl (MongoServerError (NumCode 11000) ''E11000 duplicate key error''), fleet_db)"
    by (simp add: users_create_def no_faults_def alice_form_def fleet_db_def alice_def)
  have other: "users_create create_fault
       \<lparr>user_uuid = ''u-2'', username = in_username alice_form, email = in_email alice_form,
        password = hash_password sample_collab (in_password alice_form)\<rparr> empty_db =
     (Inl (MongoServerError (NumCode 121) ''Document failed validation''), empty_db)"
    by (simp add: users_create_def create_fault_def)
  have "new_user sample_collab no_faults ''u-2'' alice_form [] fleet_db =
     (Inl (Reason ''user.exists''), fleet_db)"
    using new_user_duplicate_key [where F = no_faults and nid = "''u-2''" and
        form = alice_form and C = sample_collab and d = fleet_db and d' = fleet_db and
        e = "MongoServerError (NumCode 11000) ''E11000 duplicate key error''" and hs = "[]"]
      dup
    by simp
  moreover have "new_user sample_collab create_fault ''u-2'' alice_form [] empty_db =
     (Inl (MongoServerError (NumCode 121) ''Document failed validation''), empty_db)"
    using new_user_duplicate_key [where F = create_fault and nid = "''u-2''" and
        form = alice_form and C = sample_collab and d = empty_db and d' = empty_db and
        e = "MongoServerError (NumCode 121) ''Document failed validation''" and hs = "[]"]
      other
    by simp
  ultimately show ?thesis
    by blast
qed

section \<open>Deleting a user\<close>

text \<open>
  Claim C9. When the username and the password are well-formed and the username resolves
  to a stored user, a failed password comparison makes \<open>delete_user\<close> resolve without an
  error, and no delete is issued. A call with a password that matches resolves with the same
  outcome, so the caller cannot tell the two apart.
\<close>

theorem delete_user_wrong_password:
  assumes "validate_password pw" and "validate_username un"
    and "find_user F (\<lambda>u. username u = un) d = Inr u"
    and "compare_password C u pw = Inr False"
  shows "delete_user C F un pw d = (Inr (), []) \<and>
         (\<forall>pw'. validate_password pw' \<and> compare_password C u pw' = Inr True
            \<longrightarrow> fst (delete_user C F un pw' d) = fst (delete_user C F un pw d))"
  using assms by (simp add: delete_user_def)

text \<open>The sample user with a wrong password and with the right one.\<close>

theorem delete_user_wrong_password_witness:
  "delete_user sample_collab no_faults ''alice'' ''wrongpw'' fleet_db = (Inr (), []) \<and>
   delete_user sample_collab no_faults ''alice'' ''secret'' fleet_db =
     (Inr (), [UsersDeleteOne ''alice''])"
proof -
  have f: "find_user no_faults (\<lambda>u. username u = ''alice'') fleet_db = Inr alice"
    by (simp add: find_user_def users_findOne_def no_faults_def sample_users)
  have c: "compare_password sample_collab alice ''wrongpw'' = Inr False"
    "compare_password sample_collab alice ''secret'' = Inr True"
    by (simp_all add: sample_collab_simps sample_users)
  have r: "delete_user sample_collab no_faults ''alice'' ''secret'' fleet_db =
     (Inr (), [UsersDeleteOne ''alice''])"
    by (simp add: delete_user_def sample_validators f c)
  from delete_user_wrong_password [OF sample_validators(2) sample_validators(3) f c(1)] r
  show ?thesis
    by simp
qed

section \<open>Creating a label\<close>

text \<open>
  Claim C10. For an input whose name is the empty string, with a valid owner identifier
  and a colour, icon and description that are valid or absent, the check of the name is
  skipped: \<open>new_label\<close> goes on to create a label whose name is empty, and a working
  store then holds it, although the empty name does not pass \<open>validate_label_name\<close>.
\<close>

theorem new_label_empty_name:
  assumes "in_name input = []"
    and "validate_uuid (joi_uuid C) (in_label_owner_uuid input)"
    and "validate_hex_color (or_else (in_color input) random)"
    and "\<not> given_and_not (in_icon input) (validate_label_icon (LABEL_ICONS C))"
    and "\<not> given_and_not (in_description input) validate_label_description"
  shows "new_label C F random nid input d =
           labels_create F
             \<lparr>label_uuid = nid, label_owner_uuid = in_label_owner_uuid input, label_name = [],
              label_color = or_else (in_color input) random,
              label_description = in_description input, label_icon = in_icon input\<rparr> d \<and>
         (F LabelsCreate = None \<longrightarrow>
            (\<exists>l. new_label C F random nid input d = (Inr l, d\<lparr>labels := labels d @ [l]\<rparr>) \<and>
                 label_name l = [])) \<and>
         \<not> validate_label_name []"
proof -
  have n: "dash_spaces (toLowerCase []) = []"
    by (simp add: dash_spaces_def toLowerCase_def)
  have eq: "new_label C F random nid input d =
           labels_create F
             \<lparr>label_uuid = nid, label_owner_uuid = in_label_owner_uuid input, label_name = [],
              label_color = or_else (in_color input) random,
              label_description = in_description input, label_icon = in_icon input\<rparr> d"
    using assms by (simp add: new_label_def Let_def n)
  have made: "F LabelsCreate = None \<longrightarrow>
            (\<exists>l. new_label C F random nid input d = (Inr l, d\<lparr>labels := labels d @ [l]\<rparr>) \<and>
                 label_name l = [])"
    by (simp add: eq labels_create_def)
  have bad: "\<not> validate_label_name []"
    by (simp add: validate_label_name_def)
  from eq made bad show ?thesis
    by blast
qed

text \<open>The sample input with the empty name.\<close>

theorem new_label_empty_name_witness:
  "in_name label_input = [] \<and>
   new_label sample_collab no_faults ''#abcdef'' ''l-1'' label_input empty_db =
     (Inr \<lparr>label_uuid = ''l-1'', label_owner_uuid = ''8bb3cf50-077a-4586-8567-58f596504a0e'',
           label_name = [], label_color = ''#fff'', label_description = None,
           label_icon = None\<rparr>,
      empty_db\<lparr>labels :=
        [\<lparr>label_uuid = ''l-1'', label_owner_uuid = ''8bb3cf50-077a-4586-8567-58f596504a0e'',
          label_name = [], label_color = ''#fff'', label_description = None,
          label_icon = None\<rparr>]\<rparr>)"
proof -
  have i: "in_name label_input = []"
    "in_label_owner_uuid label_input = ''8bb3cf50-077a-4586-8567-58f596504a0e''"
    "in_color label_input = Some ''#fff''" "in_icon label_input = None"
    "in_description label_input = None"
    by (simp_all add: label_input_def)
  have a2: "validate_uuid (joi_uuid sample_collab) (in_label_owner_uuid label_input)"
    by (simp add: i validate_uuid_def sample_collab_simps uuid_string_def uuid_group_def
        is_hex_def)
  have a3: "validate_hex_color (or_else (in_color label_input) ''#abcdef'')"
    by (simp add: i is_hex_def)
  have a4: "\<not> given_and_not (in_icon label_input)
        (validate_label_icon (LABEL_ICONS sample_collab))"
    by (simp add: i)
  have a5: "\<not> given_and_not (in_description label_input) validate_label_description"
    by (simp add: i)
  from new_label_empty_name [OF i(1) a2 a3 a4 a5, of no_faults "''l-1''" empty_db] i
  show ?thesis
    by (simp add: labels_create_def no_faults_def empty_db_def)
qed

end
